theory Spec2Isabelle
  imports Main
begin

section \<open>Python values and exceptions\<close>

text \<open>
  The tool bodies of \<^verbatim>\<open>tools.py\<close> handle values decoded from JSON and pass them to
  f-strings, truth tests, subscripts and method calls. A Python value is one of the shapes
  \<^verbatim>\<open>json.loads\<close> produces. Floating-point numbers are kept abstract: the type \<open>'f\<close>
  stands for Python's \<^verbatim>\<open>float\<close>, and its arithmetic and formatting are taken as
  parameters (the record \<open>prims\<close>), so that every result below holds for any
  floating-point implementation. The Unicode case mapping \<^verbatim>\<open>str.upper\<close> and the
  quoting \<^verbatim>\<open>repr\<close> of a string are parameters of the same record
  (\<open>str_upper\<close>, \<open>str_repr\<close>): nothing below depends on what they compute. A dict is an association list looked up with \<open>map_of\<close>.
\<close>

datatype 'f pyval =
    PNone
  | PBool bool
  | PInt int
  | PFloat 'f
  | PStr string
  | PList "'f pyval list"
  | PDict "(string \<times> 'f pyval) list"

text \<open>An exception object: its class name and the text \<^verbatim>\<open>str(e)\<close> gives. Every
  exception modelled here is a subclass of \<^verbatim>\<open>Exception\<close>.\<close>

datatype exn = Exn (exn_class: string) (exn_str: string)

record 'f prims =
  float_of_int :: "int \<Rightarrow> 'f option"
  float_mul :: "'f \<Rightarrow> 'f \<Rightarrow> 'f"
  float_is_zero :: "'f \<Rightarrow> bool"
  float_str :: "'f \<Rightarrow> string"
  float_fmt2 :: "'f \<Rightarrow> string"
  str_repr :: "string \<Rightarrow> string"
  str_upper :: "string \<Rightarrow> string"

subsection \<open>Strings\<close>

definition is_space :: "char \<Rightarrow> bool" where
  "is_space c =
     (let n = (of_char c :: nat)
      in (9 \<le> n \<and> n \<le> 13) \<or> (28 \<le> n \<and> n \<le> 32) \<or> n = 133 \<or> n = 160)"

definition strip :: "string \<Rightarrow> string" where
  "strip s = rev (dropWhile is_space (rev (dropWhile is_space s)))"

fun contains_str :: "string \<Rightarrow> string \<Rightarrow> bool" where
  "contains_str [] k = (k = [])"
| "contains_str (c # cs) k = (take (length k) (c # cs) = k \<or> contains_str cs k)"

fun digits_of_nat :: "nat \<Rightarrow> string" where
  "digits_of_nat n =
     (if n < 10 then [char_of (48 + n)]
      else digits_of_nat (n div 10) @ [char_of (48 + n mod 10)])"

declare digits_of_nat.simps [simp del]

definition str_of_int :: "int \<Rightarrow> string" where
  "str_of_int i = (if i < 0 then CHR ''-'' # digits_of_nat (nat (- i)) else digits_of_nat (nat i))"

fun join_str :: "string \<Rightarrow> string list \<Rightarrow> string" where
  "join_str sep [] = []"
| "join_str sep [x] = x"
| "join_str sep (x # y # ys) = x @ sep @ join_str sep (y # ys)"

text \<open>A name between single quotes, as the messages of Python show type and attribute
  names.\<close>

definition quoted :: "string \<Rightarrow> string" where
  "quoted s = [CHR 0x27] @ s @ [CHR 0x27]"

subsection \<open>Operations on values\<close>

text \<open>\<^verbatim>\<open>repr(v)\<close> and \<^verbatim>\<open>str(v)\<close>, the latter being what an f-string field
  \<^verbatim>\<open>{v}\<close> inserts.\<close>

fun py_repr :: "'f prims \<Rightarrow> 'f pyval \<Rightarrow> string" where
  "py_repr P PNone = ''None''"
| "py_repr P (PBool b) = (if b then ''True'' else ''False'')"
| "py_repr P (PInt i) = str_of_int i"
| "py_repr P (PFloat x) = float_str P x"
| "py_repr P (PStr s) = str_repr P s"
| "py_repr P (PList xs) = ''['' @ join_str '', '' (map (py_repr P) xs) @ '']''"
| "py_repr P (PDict kvs) =
     ''{'' @ join_str '', '' (map (\<lambda>(k, v). str_repr P k @ '': '' @ py_repr P v) kvs) @ ''}''"

definition py_str :: "'f prims \<Rightarrow> 'f pyval \<Rightarrow> string" where
  "py_str P v = (case v of PStr s \<Rightarrow> s | _ \<Rightarrow> py_repr P v)"

text \<open>The truth value of \<^verbatim>\<open>v\<close> in \<^verbatim>\<open>if not v\<close>.\<close>

fun py_truthy :: "'f prims \<Rightarrow> 'f pyval \<Rightarrow> bool" where
  "py_truthy P PNone = False"
| "py_truthy P (PBool b) = b"
| "py_truthy P (PInt i) = (i \<noteq> 0)"
| "py_truthy P (PFloat x) = (\<not> float_is_zero P x)"
| "py_truthy P (PStr s) = (s \<noteq> [])"
| "py_truthy P (PList xs) = (xs \<noteq> [])"
| "py_truthy P (PDict kvs) = (kvs \<noteq> [])"

fun type_name :: "'f pyval \<Rightarrow> string" where
  "type_name PNone = ''NoneType''"
| "type_name (PBool b) = ''bool''"
| "type_name (PInt i) = ''int''"
| "type_name (PFloat x) = ''float''"
| "type_name (PStr s) = ''str''"
| "type_name (PList xs) = ''list''"
| "type_name (PDict kvs) = ''dict''"

text \<open>\<^verbatim>\<open>k in v\<close> for a string \<open>k\<close>.\<close>

fun py_contains :: "string \<Rightarrow> 'f pyval \<Rightarrow> exn + bool" where
  "py_contains k (PDict kvs) = Inr (map_of kvs k \<noteq> None)"
| "py_contains k (PList xs) = Inr (PStr k \<in> set xs)"
| "py_contains k (PStr s) = Inr (contains_str s k)"
| "py_contains k v =
     Inl (Exn ''TypeError'' (''argument of type '' @ quoted (type_name v) @ '' is not iterable''))"

text \<open>\<^verbatim>\<open>v[k]\<close> for a string \<open>k\<close>.\<close>

fun py_getitem :: "'f prims \<Rightarrow> 'f pyval \<Rightarrow> string \<Rightarrow> exn + 'f pyval" where
  "py_getitem P (PDict kvs) k =
     (case map_of kvs k of
        None \<Rightarrow> Inl (Exn ''KeyError'' (str_repr P k))
      | Some v \<Rightarrow> Inr v)"
| "py_getitem P (PList xs) k =
     Inl (Exn ''TypeError'' ''list indices must be integers or slices, not str'')"
| "py_getitem P (PStr s) k =
     Inl (Exn ''TypeError'' (''string indices must be integers, not '' @ quoted ''str''))"
| "py_getitem P v k =
     Inl (Exn ''TypeError'' (quoted (type_name v) @ '' object is not subscriptable''))"

text \<open>\<^verbatim>\<open>v[0]\<close>.\<close>

fun py_index0 :: "'f pyval \<Rightarrow> exn + 'f pyval" where
  "py_index0 (PList xs) =
     (case xs of [] \<Rightarrow> Inl (Exn ''IndexError'' ''list index out of range'') | x # _ \<Rightarrow> Inr x)"
| "py_index0 (PStr s) =
     (case s of [] \<Rightarrow> Inl (Exn ''IndexError'' ''string index out of range'')
      | c # _ \<Rightarrow> Inr (PStr [c]))"
| "py_index0 (PDict kvs) = Inl (Exn ''KeyError'' ''0'')"
| "py_index0 v = Inl (Exn ''TypeError'' (quoted (type_name v) @ '' object is not subscriptable''))"

text \<open>\<^verbatim>\<open>v.get(k, d)\<close>: only a dict has the method.\<close>

fun py_get :: "'f pyval \<Rightarrow> string \<Rightarrow> 'f pyval \<Rightarrow> exn + 'f pyval" where
  "py_get (PDict kvs) k d = Inr (case map_of kvs k of None \<Rightarrow> d | Some v \<Rightarrow> v)"
| "py_get v k d =
     Inl (Exn ''AttributeError''
       (quoted (type_name v) @ '' object has no attribute '' @ quoted ''get''))"

text \<open>The sequence \<^verbatim>\<open>enumerate(v, 1)\<close> walks through.\<close>

fun py_iter :: "'f pyval \<Rightarrow> exn + 'f pyval list" where
  "py_iter (PList xs) = Inr xs"
| "py_iter (PDict kvs) = Inr (map (\<lambda>kv. PStr (fst kv)) kvs)"
| "py_iter (PStr s) = Inr (map (\<lambda>c. PStr [c]) s)"
| "py_iter v = Inl (Exn ''TypeError'' (quoted (type_name v) @ '' object is not iterable''))"

text \<open>\<^verbatim>\<open>a * v\<close> for a float \<open>a\<close>.\<close>

fun py_float_times :: "'f prims \<Rightarrow> 'f \<Rightarrow> 'f pyval \<Rightarrow> exn + 'f" where
  "py_float_times P a (PFloat x) = Inr (float_mul P a x)"
| "py_float_times P a (PInt i) =
     (case float_of_int P i of
        None \<Rightarrow> Inl (Exn ''OverflowError'' ''int too large to convert to float'')
      | Some x \<Rightarrow> Inr (float_mul P a x))"
| "py_float_times P a (PBool b) =
     (case float_of_int P (if b then 1 else 0) of
        None \<Rightarrow> Inl (Exn ''OverflowError'' ''int too large to convert to float'')
      | Some x \<Rightarrow> Inr (float_mul P a x))"
| "py_float_times P a (PStr s) =
     Inl (Exn ''TypeError''
       (''can'' @ [CHR 0x27] @ ''t multiply sequence by non-int of type '' @ quoted ''float''))"
| "py_float_times P a (PList xs) =
     Inl (Exn ''TypeError''
       (''can'' @ [CHR 0x27] @ ''t multiply sequence by non-int of type '' @ quoted ''float''))"
| "py_float_times P a v =
     Inl (Exn ''TypeError''
       (''unsupported operand type(s) for *: '' @ quoted ''float'' @ '' and ''
          @ quoted (type_name v)))"

text \<open>\<^verbatim>\<open>format(v, ".2f")\<close>, the f-string field \<^verbatim>\<open>{v:.2f}\<close>.\<close>

fun py_format_2f :: "'f prims \<Rightarrow> 'f pyval \<Rightarrow> exn + string" where
  "py_format_2f P (PFloat x) = Inr (float_fmt2 P x)"
| "py_format_2f P (PInt i) =
     (case float_of_int P i of
        None \<Rightarrow> Inl (Exn ''OverflowError'' ''int too large to convert to float'')
      | Some x \<Rightarrow> Inr (float_fmt2 P x))"
| "py_format_2f P (PBool b) =
     (case float_of_int P (if b then 1 else 0) of
        None \<Rightarrow> Inl (Exn ''OverflowError'' ''int too large to convert to float'')
      | Some x \<Rightarrow> Inr (float_fmt2 P x))"
| "py_format_2f P (PStr s) =
     Inl (Exn ''ValueError''
       (''Unknown format code '' @ quoted ''f'' @ '' for object of type '' @ quoted ''str''))"
| "py_format_2f P v =
     Inl (Exn ''TypeError''
       (''unsupported format string passed to '' @ type_name v @ ''.__format__''))"

section \<open>The outside world\<close>

text \<open>
  The tools reach four services: \<^verbatim>\<open>urllib.request.urlopen\<close> (followed by
  \<^verbatim>\<open>read\<close>), \<^verbatim>\<open>requests.get\<close>, \<^verbatim>\<open>requests.post\<close> and yfinance's
  \<^verbatim>\<open>Ticker(symbol).history(period)\<close>. Each either raises or returns; what it does is a
  parameter (the record \<open>world\<close>), a function of everything the caller passes, so a
  statement for all worlds covers success, a malformed response and a raised exception.
  \<^verbatim>\<open>json.loads\<close> and \<^verbatim>\<open>response.json()\<close> are the world's JSON decoder applied to
  the body. Each tool calls each service at most once, so a function answers for the
  service.
\<close>

record response =
  status_code :: nat
  reason :: string
  resp_url :: string
  resp_text :: string

type_synonym 'f frame = "(string \<times> 'f pyval list) list"

record 'f world =
  urlopen_read :: "string \<Rightarrow> nat option \<Rightarrow> exn + string"
  json_loads :: "string \<Rightarrow> exn + 'f pyval"
  requests_get :: "string \<Rightarrow> (string \<times> string) list \<Rightarrow> nat option \<Rightarrow> exn + response"
  requests_post :: "string \<Rightarrow> 'f pyval \<Rightarrow> nat option \<Rightarrow> exn + response"
  yf_history :: "'f pyval \<Rightarrow> string \<Rightarrow> exn + 'f frame"

text \<open>\<^verbatim>\<open>Response.raise_for_status\<close> of the requests library: an HTTPError for a status
  in 400..599.\<close>

definition raise_for_status :: "response \<Rightarrow> exn + unit" where
  "raise_for_status r =
     (if 400 \<le> status_code r \<and> status_code r < 500 then
        Inl (Exn ''HTTPError''
          (digits_of_nat (status_code r) @ '' Client Error: '' @ reason r @ '' for url: '' @ resp_url r))
      else if 500 \<le> status_code r \<and> status_code r < 600 then
        Inl (Exn ''HTTPError''
          (digits_of_nat (status_code r) @ '' Server Error: '' @ reason r @ '' for url: '' @ resp_url r))
      else Inr ())"

text \<open>A pandas frame as its columns. \<^verbatim>\<open>data.empty\<close> holds when there is no column or
  no row; \<^verbatim>\<open>data[c]\<close> raises KeyError for a missing column; \<^verbatim>\<open>.iloc[-1]\<close> is the
  last row.\<close>

definition frame_empty :: "'f frame \<Rightarrow> bool" where
  "frame_empty d = (case d of [] \<Rightarrow> True | (c, vs) # _ \<Rightarrow> vs = [])"

definition frame_column :: "'f prims \<Rightarrow> 'f frame \<Rightarrow> string \<Rightarrow> exn + 'f pyval list" where
  "frame_column P d c =
     (case map_of d c of None \<Rightarrow> Inl (Exn ''KeyError'' (str_repr P c)) | Some vs \<Rightarrow> Inr vs)"

definition iloc_last :: "'f pyval list \<Rightarrow> exn + 'f pyval" where
  "iloc_last vs =
     (if vs = [] then Inl (Exn ''IndexError'' ''single positional indexer is out-of-bounds'')
      else Inr (last vs))"

text \<open>\<^verbatim>\<open>os.getenv\<close> on the process environment.\<close>

definition os_getenv :: "(string \<rightharpoonup> string) \<Rightarrow> string \<Rightarrow> string option" where
  "os_getenv env k = env k"

section \<open>Executions\<close>

text \<open>
  A tool body runs against the trace of the calls made to the outside so far, appends the
  calls it makes and ends with a value or with an exception. \<open>try_except\<close> is
  \<^verbatim>\<open>try: ... except Exception as e: ...\<close>.
\<close>

datatype 'f event =
    UrlOpen string "nat option"
  | RequestsGet string "nat option"
  | RequestsPost string "nat option"
  | YfHistory "'f pyval" string

type_synonym ('f, 'a) exec = "'f event list \<Rightarrow> 'f event list \<times> (exn + 'a)"

definition ret :: "'a \<Rightarrow> ('f, 'a) exec" where
  "ret x = (\<lambda>t. (t, Inr x))"

definition pure_op :: "exn + 'a \<Rightarrow> ('f, 'a) exec" where
  "pure_op r = (\<lambda>t. (t, r))"

definition call :: "'f event \<Rightarrow> exn + 'a \<Rightarrow> ('f, 'a) exec" where
  "call ev r = (\<lambda>t. (t @ [ev], r))"

definition bind :: "('f, 'a) exec \<Rightarrow> ('a \<Rightarrow> ('f, 'b) exec) \<Rightarrow> ('f, 'b) exec" where
  "bind m f = (\<lambda>t. case m t of (t', Inl e) \<Rightarrow> (t', Inl e) | (t', Inr x) \<Rightarrow> f x t')"

definition try_except :: "('f, 'a) exec \<Rightarrow> (exn \<Rightarrow> ('f, 'a) exec) \<Rightarrow> ('f, 'a) exec" where
  "try_except m h = (\<lambda>t. case m t of (t', Inl e) \<Rightarrow> h e t' | (t', Inr x) \<Rightarrow> (t', Inr x))"

text \<open>The deadline an event was issued with. The history call passes none.\<close>

fun event_timeout :: "'f event \<Rightarrow> nat option" where
  "event_timeout (UrlOpen u d) = d"
| "event_timeout (RequestsGet u d) = d"
| "event_timeout (RequestsPost u d) = d"
| "event_timeout (YfHistory s p) = None"

section \<open>The tools of tools.py\<close>

text \<open>Loading the module runs line 12, which reads the search credential from the
  environment into the global \<^verbatim>\<open>TAVILY_API_KEY\<close>; \<^verbatim>\<open>os.getenv\<close> gives
  \<^verbatim>\<open>None\<close> for an unset name and does not raise. The decorator \<^verbatim>\<open>@tool()\<close> of
  \<^verbatim>\<open>tool_registry\<close> is not among the sources and does not read the credential.\<close>

record module_globals =
  TAVILY_API_KEY :: "string option"

definition load_module :: "(string \<rightharpoonup> string) \<Rightarrow> exn + module_globals" where
  "load_module env = Inr \<lparr>TAVILY_API_KEY = os_getenv env ''TAVILY_API_KEY''\<rparr>"

text \<open>Lines 13 to 38. The whole body is inside \<^verbatim>\<open>try\<close>; \<^verbatim>\<open>urlopen(url)\<close> is
  called with no \<^verbatim>\<open>timeout\<close> argument, which the event records as \<open>None\<close>.\<close>

definition convert_currency ::
  "'f world \<Rightarrow> 'f prims \<Rightarrow> 'f \<Rightarrow> string \<Rightarrow> string \<Rightarrow> ('f, 'f pyval) exec" where
  "convert_currency W P amount from_currency to_currency =
     try_except
       (let url = ''https://open.er-api.com/v6/latest/'' @ str_upper P from_currency in
        bind (call (UrlOpen url None) (urlopen_read W url None)) (\<lambda>raw.
        bind (pure_op (json_loads W raw)) (\<lambda>data.
        bind (pure_op (py_contains ''rates'' data)) (\<lambda>has_rates.
        if \<not> has_rates then ret (PStr ''Error: Could not fetch exchange rates'')
        else
        bind (pure_op (py_getitem P data ''rates'')) (\<lambda>rates.
        bind (pure_op (py_get rates (str_upper P to_currency) PNone)) (\<lambda>rate.
        if \<not> py_truthy P rate then ret (PStr (''Error: No rate found for '' @ to_currency))
        else
        bind (pure_op (py_float_times P amount rate)) (\<lambda>converted.
        ret (PStr (float_str P amount @ '' '' @ str_upper P from_currency @ '' = ''
                   @ float_fmt2 P converted @ '' '' @ str_upper P to_currency)))))))))
       (\<lambda>e. ret (PStr (''Error converting currency: '' @ exn_str e)))"

text \<open>Lines 41 to 57. The two tests on \<^verbatim>\<open>city\<close> come before the \<^verbatim>\<open>try\<close>;
  the request passes \<^verbatim>\<open>timeout=5\<close>. The first argument is \<open>PNone\<close> when the caller
  gives no city.\<close>

definition get_weather ::
  "'f world \<Rightarrow> 'f prims \<Rightarrow> 'f pyval \<Rightarrow> (string \<times> 'f pyval) list \<Rightarrow> ('f, 'f pyval) exec" where
  "get_weather W P city0 kwargs =
     (let city = (if city0 = PNone
                  then (case map_of kwargs ''location'' of None \<Rightarrow> PNone | Some v \<Rightarrow> v)
                  else city0) in
      if \<not> py_truthy P city then ret (PStr ''Error: No city provided.'')
      else
        try_except
          (let url = ''http://wttr.in/'' @ py_str P city @ ''?format=3'' in
           bind (call (RequestsGet url (Some 5)) (requests_get W url [] (Some 5))) (\<lambda>response.
           bind (pure_op (raise_for_status response)) (\<lambda>_.
           ret (PStr (strip (resp_text response))))))
          (\<lambda>e. ret (PStr (''Error retrieving weather for '' @ py_str P city @ '': '' @ exn_str e))))"

text \<open>The loop of \<^verbatim>\<open>web_search\<close> over \<^verbatim>\<open>enumerate(results, 1)\<close>, with the counter
  and the string built so far.\<close>

fun format_results :: "'f prims \<Rightarrow> nat \<Rightarrow> string \<Rightarrow> 'f pyval list \<Rightarrow> exn + string" where
  "format_results P i formatted_results [] = Inr formatted_results"
| "format_results P i formatted_results (result # rest) =
     (case py_get result ''title'' (PStr ''No Title'') of
        Inl e \<Rightarrow> Inl e
      | Inr title \<Rightarrow>
          (case py_get result ''snippet'' (PStr ''No snippet available'') of
             Inl e \<Rightarrow> Inl e
           | Inr snippet \<Rightarrow>
               format_results P (Suc i)
                 (formatted_results @ ''Result '' @ digits_of_nat i @ '': '' @ py_str P title
                    @ [CHR 0x0A] @ py_str P snippet @ [CHR 0x0A, CHR 0x0A])
                 rest))"

text \<open>Lines 62 to 91. The payload carries the global
  \<^verbatim>\<open>TAVILY_API_KEY\<close>, \<^verbatim>\<open>None\<close> when it was unset; the request passes
  \<^verbatim>\<open>timeout=10\<close>.\<close>

definition web_search_payload :: "string option \<Rightarrow> string \<Rightarrow> 'f pyval" where
  "web_search_payload api_key query =
     PDict [(''api_key'', (case api_key of None \<Rightarrow> PNone | Some k \<Rightarrow> PStr k)),
            (''query'', PStr query),
            (''search_depth'', PStr ''advanced''),
            (''include_images'', PBool True),
            (''include_raw_content'', PBool True),
            (''max_results'', PInt 4)]"

definition web_search ::
  "'f world \<Rightarrow> 'f prims \<Rightarrow> string option \<Rightarrow> string \<Rightarrow> ('f, 'f pyval) exec" where
  "web_search W P api_key query =
     (let url = ''https://api.tavily.com/search'';
          payload = web_search_payload api_key query in
      try_except
        (bind (call (RequestsPost url (Some 10)) (requests_post W url payload (Some 10))) (\<lambda>response.
         bind (pure_op (raise_for_status response)) (\<lambda>_.
         bind (pure_op (json_loads W (resp_text response))) (\<lambda>response_j.
         bind (pure_op (py_get response_j ''results'' (PList []))) (\<lambda>results.
         if \<not> py_truthy P results then ret (PStr ''No results found.'')
         else
         bind (pure_op (py_iter results)) (\<lambda>items.
         bind (pure_op (format_results P 1 [] items)) (\<lambda>formatted_results.
         ret (PStr (strip formatted_results)))))))))
        (\<lambda>e. ret (PStr (''Error during web search: '' @ exn_str e))))"

text \<open>Lines 95 to 112. Every exception ends in \<^verbatim>\<open>return None\<close>.\<close>

definition get_ticker :: "'f world \<Rightarrow> 'f prims \<Rightarrow> string \<Rightarrow> ('f, 'f pyval) exec" where
  "get_ticker W P company =
     try_except
       (let url = ''https://query2.finance.yahoo.com/v1/finance/search?q='' @ company;
            headers = [(''User-Agent'', ''Mozilla/5.0'')] in
        bind (call (RequestsGet url (Some 10)) (requests_get W url headers (Some 10))) (\<lambda>response.
        bind (pure_op (raise_for_status response)) (\<lambda>_.
        bind (pure_op (json_loads W (resp_text response))) (\<lambda>data.
        bind (pure_op (py_get data ''quotes'' (PList []))) (\<lambda>quotes.
        if py_truthy P quotes then
          bind (pure_op (py_index0 quotes)) (\<lambda>first. pure_op (py_get first ''symbol'' PNone))
        else ret PNone)))))
       (\<lambda>e. ret PNone)"

text \<open>Lines 114 to 131. The call of \<open>get_ticker\<close> and the test of its result come
  before the \<^verbatim>\<open>try\<close>.\<close>

definition get_stock_price :: "'f world \<Rightarrow> 'f prims \<Rightarrow> string \<Rightarrow> ('f, 'f pyval) exec" where
  "get_stock_price W P company =
     bind (get_ticker W P company) (\<lambda>ticker_symbol.
     if \<not> py_truthy P ticker_symbol then
       ret (PStr (''Could not find a ticker symbol for '' @ company @ ''.''))
     else
       try_except
         (bind (call (YfHistory ticker_symbol ''1d'') (yf_history W ticker_symbol ''1d'')) (\<lambda>data.
          if frame_empty data then ret (PStr (''Could not retrieve data for '' @ company @ ''.''))
          else
          bind (pure_op (frame_column P data ''Close'')) (\<lambda>close.
          bind (pure_op (iloc_last close)) (\<lambda>price.
          bind (pure_op (py_format_2f P price)) (\<lambda>price_2f.
          ret (PStr (''The current stock price of '' @ company @ '' ('' @ py_str P ticker_symbol
                     @ '') is $'' @ price_2f)))))))
         (\<lambda>e. ret (PStr (''Error retrieving stock price for '' @ company @ '': '' @ exn_str e))))"

section \<open>The tool registry\<close>

text \<open>
  Modelled from the spec: the module \<^verbatim>\<open>tool_registry\<close> that \<^verbatim>\<open>tools.py\<close> imports
  (the decorator \<^verbatim>\<open>@tool()\<close> and the registry behind it) is not among the sources.
  Following section 3 of the specification, a descriptor pairs a unique name, a
  description and an ordered parameter list (name, semantic type, required) with the
  callable; the semantic types are string, number and boolean.
\<close>

datatype semantic_type = TString | TNumber | TBoolean

record 'c tool_descriptor =
  name :: string
  description :: string
  parameters :: "(string \<times> semantic_type \<times> bool) list"
  invoke :: 'c

text \<open>
  Modelled from the spec: the errors of the missing registry, after section 7. A duplicate
  tool name is a configuration error; an unknown tool name is a request-level fault.
\<close>

datatype configuration_error = DuplicateToolError string

datatype request_error = UnknownToolError string

text \<open>
  Modelled from the spec: the registry of the missing module, a mapping from name to
  descriptor kept in registration order (sections 3 and 4.2).
\<close>

type_synonym 'c tool_registry = "'c tool_descriptor list"

text \<open>
  Modelled from the spec: \<^verbatim>\<open>register(descriptor)\<close> of the missing registry (section
  4.2): it adds the descriptor and fails with DuplicateToolError if the name already exists;
  a duplicate is rejected, not silently overwritten (section 3).
\<close>

definition register ::
  "'c tool_descriptor \<Rightarrow> 'c tool_registry \<Rightarrow> 'c tool_registry \<times> (configuration_error + unit)" where
  "register d reg =
     (if name d \<in> set (map name reg) then (reg, Inl (DuplicateToolError (name d)))
      else (reg @ [d], Inr ()))"

text \<open>
  Modelled from the spec: \<^verbatim>\<open>get(name)\<close> of the missing registry (section 4.2): it
  returns the descriptor or fails with UnknownToolError.
\<close>

definition registry_get ::
  "string \<Rightarrow> 'c tool_registry \<Rightarrow> request_error + 'c tool_descriptor" where
  "registry_get n reg =
     (case find (\<lambda>d. name d = n) reg of
        None \<Rightarrow> Inl (UnknownToolError n)
      | Some d \<Rightarrow> Inr d)"

section \<open>Sample worlds\<close>

text \<open>
  Concrete stand-ins for the parameters, used to run the tools on examples. A number is
  held in hundredths: \<open>fixed_str\<close> prints it as \<^verbatim>\<open>str\<close> prints the float (at least
  one decimal, no trailing zero after it) and \<open>fixed2\<close> as the format \<^verbatim>\<open>.2f\<close>
  prints it. \<open>ascii_upper\<close> is \<^verbatim>\<open>str.upper\<close> on strings of ASCII characters, which
  is all the examples pass to it. The sample world answers every call of a service with
  one fixed outcome.
\<close>

definition fixed2 :: "int \<Rightarrow> string" where
  "fixed2 x =
     (if x < 0 then ''-'' else []) @ digits_of_nat (nat \<bar>x\<bar> div 100) @ ''.''
       @ digits_of_nat (nat \<bar>x\<bar> mod 100 div 10) @ digits_of_nat (nat \<bar>x\<bar> mod 10)"

definition fixed_str :: "int \<Rightarrow> string" where
  "fixed_str x =
     (if x < 0 then ''-'' else []) @ digits_of_nat (nat \<bar>x\<bar> div 100) @ ''.''
       @ digits_of_nat (nat \<bar>x\<bar> mod 100 div 10)
       @ (if nat \<bar>x\<bar> mod 10 = 0 then [] else digits_of_nat (nat \<bar>x\<bar> mod 10))"

definition ascii_upper_char :: "char \<Rightarrow> char" where
  "ascii_upper_char c =
     (let n = (of_char c :: nat)
      in if 97 \<le> n \<and> n \<le> 122 then char_of (n - 32) else c)"

definition ascii_upper :: "string \<Rightarrow> string" where
  "ascii_upper s = map ascii_upper_char s"

definition fixed_prims :: "int prims" where
  "fixed_prims =
     \<lparr>float_of_int = (\<lambda>i. Some (100 * i)),
      float_mul = (\<lambda>a b. a * b div 100),
      float_is_zero = (\<lambda>x. x = 0),
      float_str = fixed_str,
      float_fmt2 = fixed2,
      str_repr = (\<lambda>s. [CHR 0x27] @ s @ [CHR 0x27]),
      str_upper = ascii_upper\<rparr>"

definition stub_world ::
  "exn + string \<Rightarrow> exn + int pyval \<Rightarrow> exn + response \<Rightarrow> exn + int frame \<Rightarrow> int world" where
  "stub_world u j r h =
     \<lparr>urlopen_read = (\<lambda>url timeout. u),
      json_loads = (\<lambda>body. j),
      requests_get = (\<lambda>url headers timeout. r),
      requests_post = (\<lambda>url payload timeout. r),
      yf_history = (\<lambda>symbol period. h)\<rparr>"

section \<open>Facts about executions\<close>

lemmas exec_defs = try_except_def bind_def call_def pure_op_def ret_def

section \<open>The tools return strings\<close>

text \<open>
  Claim C1. Each registered tool body (\<open>convert_currency\<close>, \<open>get_weather\<close>,
  \<open>web_search\<close>, \<open>get_stock_price\<close>), for any arguments, any floating-point
  primitives and any behaviour of the outside services (success, a malformed response or a
  raised exception), started after any trace, ends with a value that is a string: no
  exception leaves the tool.
\<close>

theorem tools_always_return_strings:
  "(\<exists>t s. convert_currency W P amount from_currency to_currency t0 = (t, Inr (PStr s)))
   \<and> (\<exists>t s. get_weather W P city kwargs t0 = (t, Inr (PStr s)))
   \<and> (\<exists>t s. web_search W P api_key query t0 = (t, Inr (PStr s)))
   \<and> (\<exists>t s. get_stock_price W P company t0 = (t, Inr (PStr s)))"
proof (intro conjI)
  show "\<exists>t s. convert_currency W P amount from_currency to_currency t0 = (t, Inr (PStr s))"
    by (auto simp: convert_currency_def exec_defs Let_def split: sum.splits prod.splits)
  show "\<exists>t s. get_weather W P city kwargs t0 = (t, Inr (PStr s))"
    by (auto simp: get_weather_def exec_defs Let_def split: sum.splits prod.splits option.splits)
  show "\<exists>t s. web_search W P api_key query t0 = (t, Inr (PStr s))"
    by (auto simp: web_search_def exec_defs Let_def split: sum.splits prod.splits)
  show "\<exists>t s. get_stock_price W P company t0 = (t, Inr (PStr s))"
    by (auto simp: get_stock_price_def get_ticker_def exec_defs Let_def
        split: sum.splits prod.splits)
qed

text \<open>The same in a world where every service raises.\<close>

theorem tools_always_return_strings_witness:
  "(\<exists>t s. convert_currency (stub_world (Inl (Exn ''URLError'' ''timed out'')) (Inr PNone)
        (Inl (Exn ''ConnectionError'' ''refused'')) (Inl (Exn ''KeyError'' ''x'')))
        fixed_prims 10000 ''usd'' ''eur'' [] = (t, Inr (PStr s)))
   \<and> (\<exists>t s. get_weather (stub_world (Inl (Exn ''URLError'' ''timed out'')) (Inr PNone)
        (Inl (Exn ''ConnectionError'' ''refused'')) (Inl (Exn ''KeyError'' ''x'')))
        fixed_prims (PStr ''Berlin'') [] [] = (t, Inr (PStr s)))
   \<and> (\<exists>t s. web_search (stub_world (Inl (Exn ''URLError'' ''timed out'')) (Inr PNone)
        (Inl (Exn ''ConnectionError'' ''refused'')) (Inl (Exn ''KeyError'' ''x'')))
        fixed_prims None ''news'' [] = (t, Inr (PStr s)))
   \<and> (\<exists>t s. get_stock_price (stub_world (Inl (Exn ''URLError'' ''timed out'')) (Inr PNone)
        (Inl (Exn ''ConnectionError'' ''refused'')) (Inl (Exn ''KeyError'' ''x'')))
        fixed_prims ''Apple'' [] = (t, Inr (PStr s)))"
  by (rule tools_always_return_strings)

section \<open>Deadlines of the requests\<close>

text \<open>
  Claim C2. Every request a tool issues is to carry a deadline of 5 to 10 seconds. The
  request of \<open>convert_currency\<close> carries none: whatever the world, the conversion of USD
  to EUR issues exactly one request, and that request has no deadline.
\<close>

theorem convert_currency_request_has_no_deadline:
  "map event_timeout (fst (convert_currency W P amount ''USD'' ''EUR'' [])) = [None]"
  by (auto simp: convert_currency_def exec_defs Let_def split: sum.splits prod.splits)

text \<open>The requests of the other tools carry their deadlines.\<close>

lemma sibling_requests_carry_deadlines:
  "py_truthy P city \<Longrightarrow> city \<noteq> PNone \<Longrightarrow>
     map event_timeout (fst (get_weather W P city kwargs [])) = [Some 5]"
  "map event_timeout (fst (web_search W P api_key query [])) = [Some 10]"
  "map event_timeout (fst (get_ticker W P company [])) = [Some 10]"
  by (auto simp: get_weather_def web_search_def get_ticker_def exec_defs Let_def
      split: sum.splits prod.splits)

section \<open>A missing search credential\<close>

text \<open>
  Claim C3. When \<^verbatim>\<open>TAVILY_API_KEY\<close> is absent from the environment, loading the module
  succeeds and leaves the global at \<^verbatim>\<open>None\<close>; and when the search service then answers
  the request with a status in 400..599, \<open>web_search\<close> returns a string that starts with
  \<^verbatim>\<open>Error during web search:\<close>, hence contains the word Error, and raises nothing.
\<close>

theorem web_search_without_credential:
  assumes "env ''TAVILY_API_KEY'' = None"
    and "requests_post W ''https://api.tavily.com/search'' (web_search_payload None query) (Some 10)
           = Inr r"
    and "400 \<le> status_code r" and "status_code r < 600"
  shows "\<exists>g msg. load_module env = Inr g \<and> TAVILY_API_KEY g = None
           \<and> web_search W P (TAVILY_API_KEY g) query t0
               = (t0 @ [RequestsPost ''https://api.tavily.com/search'' (Some 10)],
                  Inr (PStr (''Error during web search: '' @ msg)))
           \<and> contains_str (''Error during web search: '' @ msg) ''Error''"
proof -
  have "\<exists>e. raise_for_status r = Inl e"
    using assms(3,4) unfolding raise_for_status_def by (cases "status_code r < 500") auto
  then obtain e where e: "raise_for_status r = Inl e" ..
  have "web_search W P None query t0
          = (t0 @ [RequestsPost ''https://api.tavily.com/search'' (Some 10)],
             Inr (PStr (''Error during web search: '' @ exn_str e)))"
    using assms(2) e by (simp add: web_search_def exec_defs Let_def)
  moreover have "contains_str (''Error during web search: '' @ exn_str e) ''Error''"
    by simp
  ultimately show ?thesis
    using assms(1) by (auto simp: load_module_def os_getenv_def)
qed

text \<open>An empty environment and a service that answers 401 Unauthorized.\<close>

theorem web_search_without_credential_witness:
  "\<exists>g msg. load_module Map.empty = Inr g \<and> TAVILY_API_KEY g = None
     \<and> web_search
          (stub_world (Inr []) (Inr PNone)
             (Inr \<lparr>status_code = 401, reason = ''Unauthorized'',
                   resp_url = ''https://api.tavily.com/search'', resp_text = []\<rparr>) (Inr []))
          fixed_prims (TAVILY_API_KEY g) ''news'' []
          = ([RequestsPost ''https://api.tavily.com/search'' (Some 10)],
             Inr (PStr (''Error during web search: '' @ msg)))
     \<and> contains_str (''Error during web search: '' @ msg) ''Error''"
  using web_search_without_credential [of Map.empty
      "stub_world (Inr []) (Inr PNone)
             (Inr \<lparr>status_code = 401, reason = ''Unauthorized'',
                   resp_url = ''https://api.tavily.com/search'', resp_text = []\<rparr>) (Inr [])"
      "''news''"
      "\<lparr>status_code = 401, reason = ''Unauthorized'',
                   resp_url = ''https://api.tavily.com/search'', resp_text = []\<rparr>"
      fixed_prims "[]"]
  by (simp add: stub_world_def)

section \<open>The city of get-weather\<close>

text \<open>
  Claim C5. \<open>get_weather\<close> takes extra keyword arguments and honours \<^verbatim>\<open>location\<close> as
  an alias of \<^verbatim>\<open>city\<close>: when \<^verbatim>\<open>city\<close> is \<^verbatim>\<open>None\<close> and the keyword arguments hold a
  non-empty \<^verbatim>\<open>location\<close>, the call behaves exactly as the call with that value passed as
  \<^verbatim>\<open>city\<close> (whatever keyword arguments that call has): it issues the one request for that
  location, and when the request fails the error string echoes the location.
\<close>

theorem get_weather_location_alias:
  assumes "map_of kwargs ''location'' = Some loc" and "py_truthy P loc"
  shows "get_weather W P PNone kwargs t0 = get_weather W P loc kwargs' t0
    \<and> fst (get_weather W P PNone kwargs t0)
        = t0 @ [RequestsGet (''http://wttr.in/'' @ py_str P loc @ ''?format=3'') (Some 5)]
    \<and> (\<forall>e. requests_get W (''http://wttr.in/'' @ py_str P loc @ ''?format=3'') [] (Some 5) = Inl e
          \<longrightarrow> snd (get_weather W P PNone kwargs t0)
                = Inr (PStr (''Error retrieving weather for '' @ py_str P loc @ '': '' @ exn_str e)))"
proof -
  from assms(2) have "loc \<noteq> PNone" by auto
  with assms show ?thesis
    by (auto simp: get_weather_def exec_defs Let_def split: sum.splits prod.splits)
qed

text \<open>The call \<^verbatim>\<open>get_weather(location="Berlin")\<close> against a service that refuses the
  connection.\<close>

theorem get_weather_location_alias_witness:
  "get_weather (stub_world (Inr []) (Inr PNone) (Inl (Exn ''ConnectionError'' ''refused'')) (Inr []))
       fixed_prims PNone [(''location'', PStr ''Berlin'')] []
     = ([RequestsGet ''http://wttr.in/Berlin?format=3'' (Some 5)],
        Inr (PStr ''Error retrieving weather for Berlin: refused''))"
proof -
  define W where
    "W = stub_world (Inr []) (Inr PNone) (Inl (Exn ''ConnectionError'' ''refused'')) (Inr [])"
  have rg: "requests_get W u h d = Inl (Exn ''ConnectionError'' ''refused'')" for u h d
    by (simp add: W_def stub_world_def)
  have "get_weather W fixed_prims PNone [(''location'', PStr ''Berlin'')] []
     = ([RequestsGet ''http://wttr.in/Berlin?format=3'' (Some 5)],
        Inr (PStr ''Error retrieving weather for Berlin: refused''))"
    using get_weather_location_alias [of "[(''location'', PStr ''Berlin'')]" "PStr ''Berlin''"
        fixed_prims W "[]" "[]", THEN conjunct2] rg
    by (simp add: prod_eq_iff py_str_def)
  then show ?thesis unfolding W_def .
qed

text \<open>
  Claim C9. When both \<^verbatim>\<open>city\<close> and the keyword \<^verbatim>\<open>location\<close> are absent,
  \<^verbatim>\<open>None\<close> or the empty string, \<open>get_weather\<close> returns exactly
  \<^verbatim>\<open>Error: No city provided.\<close> and leaves the trace as it was: no request is made.
\<close>

theorem get_weather_no_city:
  assumes "city = PNone \<or> city = PStr []"
    and "map_of kwargs ''location'' = None \<or> map_of kwargs ''location'' = Some PNone
           \<or> map_of kwargs ''location'' = Some (PStr [])"
  shows "get_weather W P city kwargs t0 = (t0, Inr (PStr ''Error: No city provided.''))"
  using assms by (auto simp: get_weather_def exec_defs)

text \<open>The call \<^verbatim>\<open>get_weather(location="")\<close>.\<close>

theorem get_weather_no_city_witness:
  "get_weather (stub_world (Inr []) (Inr PNone) (Inl (Exn ''ConnectionError'' ''refused'')) (Inr []))
     fixed_prims PNone [(''location'', PStr [])] [] = ([], Inr (PStr ''Error: No city provided.''))"
  using get_weather_no_city [of PNone "[(''location'', PStr [])]"
      "stub_world (Inr []) (Inr PNone) (Inl (Exn ''ConnectionError'' ''refused'')) (Inr [])"
      fixed_prims "[]"]
  by simp

section \<open>Currency conversion\<close>

text \<open>
  Claim C6. \<open>convert_currency\<close> returns a string in every case and looks the rates up
  under the uppercased source code (its one request is for that URL); uppercasing is
  \<^verbatim>\<open>str.upper\<close>, the parameter \<open>str_upper\<close>. When the response
  was fetched and decoded: if \<^verbatim>\<open>"rates" in data\<close> is false, the result is
  \<^verbatim>\<open>Error: Could not fetch exchange rates\<close>, and if that test itself raises (the
  response is \<^verbatim>\<open>null\<close>, a number or a boolean) the result starts with
  \<^verbatim>\<open>Error converting currency:\<close>; if \<^verbatim>\<open>rates\<close> is a table with a
  non-zero float rate (or a non-zero integer rate that converts to a float) under the
  uppercased target code, the result is the amount, the uppercased source code, an equals
  sign, the product formatted to two decimals and the uppercased target code; if the
  table has no rate, or a falsy one, under the uppercased target code, the result is
  \<^verbatim>\<open>Error: No rate found for\<close> followed by the target code.
\<close>

theorem convert_currency_results:
  "(\<exists>t s. convert_currency W P amount from_currency to_currency t0 = (t, Inr (PStr s)))
   \<and> fst (convert_currency W P amount from_currency to_currency t0)
       = t0 @ [UrlOpen (''https://open.er-api.com/v6/latest/'' @ str_upper P from_currency) None]
   \<and> (\<forall>raw data.
        urlopen_read W (''https://open.er-api.com/v6/latest/'' @ str_upper P from_currency) None = Inr raw
        \<and> json_loads W raw = Inr data \<longrightarrow>
        (py_contains ''rates'' data = Inr False \<longrightarrow>
           snd (convert_currency W P amount from_currency to_currency t0)
             = Inr (PStr ''Error: Could not fetch exchange rates''))
        \<and> (\<forall>e. py_contains ''rates'' data = Inl e \<longrightarrow>
             (\<exists>msg. snd (convert_currency W P amount from_currency to_currency t0)
                      = Inr (PStr (''Error converting currency: '' @ msg))))
        \<and> (\<forall>d rates. data = PDict d \<and> map_of d ''rates'' = Some (PDict rates) \<longrightarrow>
             (\<forall>x. map_of rates (str_upper P to_currency) = Some (PFloat x) \<and> \<not> float_is_zero P x \<longrightarrow>
                snd (convert_currency W P amount from_currency to_currency t0)
                  = Inr (PStr (float_str P amount @ '' '' @ str_upper P from_currency @ '' = ''
                               @ float_fmt2 P (float_mul P amount x) @ '' '' @ str_upper P to_currency)))
             \<and> (\<forall>i x. map_of rates (str_upper P to_currency) = Some (PInt i) \<and> i \<noteq> 0
                       \<and> float_of_int P i = Some x \<longrightarrow>
                snd (convert_currency W P amount from_currency to_currency t0)
                  = Inr (PStr (float_str P amount @ '' '' @ str_upper P from_currency @ '' = ''
                               @ float_fmt2 P (float_mul P amount x) @ '' '' @ str_upper P to_currency)))
             \<and> ((case map_of rates (str_upper P to_currency) of
                    None \<Rightarrow> True | Some rate \<Rightarrow> \<not> py_truthy P rate) \<longrightarrow>
                snd (convert_currency W P amount from_currency to_currency t0)
                  = Inr (PStr (''Error: No rate found for '' @ to_currency)))))"
proof (intro conjI allI impI)
  show "\<exists>t s. convert_currency W P amount from_currency to_currency t0 = (t, Inr (PStr s))"
    by (auto simp: convert_currency_def exec_defs Let_def split: sum.splits prod.splits)
next
  show "fst (convert_currency W P amount from_currency to_currency t0)
       = t0 @ [UrlOpen (''https://open.er-api.com/v6/latest/'' @ str_upper P from_currency) None]"
    by (auto simp: convert_currency_def exec_defs Let_def split: sum.splits prod.splits)
qed (auto simp: convert_currency_def exec_defs Let_def split: option.splits)

text \<open>
  The call \<^verbatim>\<open>convert_currency(100.0, "usd", "eur")\<close> against a response decoded to
  \<^verbatim>\<open>{"rates": {"USD": 1, "EUR": 0.92}}\<close>, numbers held in hundredths.
\<close>

theorem convert_currency_results_witness:
  "snd (convert_currency
      (stub_world (Inr ''{}'') (Inr (PDict [(''rates'', PDict [(''USD'', PInt 1), (''EUR'', PFloat 92)])]))
         (Inl (Exn ''ConnectionError'' ''refused'')) (Inr []))
      fixed_prims 10000 ''usd'' ''eur'' [])
    = Inr (PStr ''100.0 USD = 92.00 EUR'')"
proof -
  define W where
    "W = stub_world (Inr ''{}'') (Inr (PDict [(''rates'', PDict [(''USD'', PInt 1), (''EUR'', PFloat 92)])]))
         (Inl (Exn ''ConnectionError'' ''refused'')) (Inr [])"
  have u: "urlopen_read W u d = Inr ''{}''" for u d
    by (simp add: W_def stub_world_def)
  have j: "json_loads W b = Inr (PDict [(''rates'', PDict [(''USD'', PInt 1), (''EUR'', PFloat 92)])])" for b
    by (simp add: W_def stub_world_def)
  have up: "str_upper fixed_prims ''usd'' = ''USD''" "str_upper fixed_prims ''eur'' = ''EUR''"
    by (simp_all add: fixed_prims_def ascii_upper_def ascii_upper_char_def char_of_def
        bit_Suc_0_iff)
  have f: "float_str fixed_prims 10000 = ''100.0''"
    "float_fmt2 fixed_prims (float_mul fixed_prims 10000 92) = ''92.00''"
    "\<not> float_is_zero fixed_prims 92"
    by (simp_all add: fixed_prims_def fixed2_def fixed_str_def digits_of_nat.simps char_of_def
        bit_Suc_0_iff)
  have "snd (convert_currency W fixed_prims 10000 ''usd'' ''eur'' [])
          = Inr (PStr ''100.0 USD = 92.00 EUR'')"
    using convert_currency_results [where W = W and P = fixed_prims and amount = 10000
        and from_currency = "''usd''" and to_currency = "''eur''" and ?t0.0 = "[]",
        THEN conjunct2, THEN conjunct2] f
    by (simp add: u j up)
  then show ?thesis unfolding W_def .
qed

text \<open>
  Claim C8. A zero rate is treated as a missing rate: when the fetched rates table maps the
  uppercased target code (uppercased by \<^verbatim>\<open>str.upper\<close>, the parameter
  \<open>str_upper\<close>) to \<^verbatim>\<open>0\<close>, to a float zero, or to nothing,
  \<open>convert_currency\<close> returns \<^verbatim>\<open>Error: No rate found for\<close> followed by the target
  code as the caller wrote it, not uppercased.
\<close>

theorem convert_currency_zero_rate_is_missing:
  assumes "urlopen_read W (''https://open.er-api.com/v6/latest/'' @ str_upper P from_currency) None = Inr raw"
    and "json_loads W raw = Inr (PDict d)"
    and "map_of d ''rates'' = Some (PDict rates)"
    and "map_of rates (str_upper P to_currency) = None
         \<or> map_of rates (str_upper P to_currency) = Some (PInt 0)
         \<or> (\<exists>z. map_of rates (str_upper P to_currency) = Some (PFloat z) \<and> float_is_zero P z)"
  shows "convert_currency W P amount from_currency to_currency t0
           = (t0 @ [UrlOpen (''https://open.er-api.com/v6/latest/'' @ str_upper P from_currency) None],
              Inr (PStr (''Error: No rate found for '' @ to_currency)))"
  using assms by (auto simp: convert_currency_def exec_defs Let_def)

text \<open>
  A table with \<^verbatim>\<open>"EUR": 0\<close> and the target code \<^verbatim>\<open>eur\<close>.
\<close>

theorem convert_currency_zero_rate_is_missing_witness:
  "convert_currency
      (stub_world (Inr ''{}'') (Inr (PDict [(''rates'', PDict [(''USD'', PInt 1), (''EUR'', PInt 0)])]))
         (Inl (Exn ''ConnectionError'' ''refused'')) (Inr []))
      fixed_prims 10000 ''usd'' ''eur'' []
    = ([UrlOpen ''https://open.er-api.com/v6/latest/USD'' None],
       Inr (PStr ''Error: No rate found for eur''))"
proof -
  define W where
    "W = stub_world (Inr ''{}'') (Inr (PDict [(''rates'', PDict [(''USD'', PInt 1), (''EUR'', PInt 0)])]))
         (Inl (Exn ''ConnectionError'' ''refused'')) (Inr [])"
  have u: "urlopen_read W u d = Inr ''{}''" for u d
    by (simp add: W_def stub_world_def)
  have j: "json_loads W b = Inr (PDict [(''rates'', PDict [(''USD'', PInt 1), (''EUR'', PInt 0)])])" for b
    by (simp add: W_def stub_world_def)
  have up: "str_upper fixed_prims ''usd'' = ''USD''" "str_upper fixed_prims ''eur'' = ''EUR''"
    by (simp_all add: fixed_prims_def ascii_upper_def ascii_upper_char_def char_of_def
        bit_Suc_0_iff)
  have "convert_currency W fixed_prims 10000 ''usd'' ''eur'' []
    = ([UrlOpen ''https://open.er-api.com/v6/latest/USD'' None],
       Inr (PStr ''Error: No rate found for eur''))"
    using convert_currency_zero_rate_is_missing [where W = W and P = fixed_prims
        and from_currency = "''usd''" and to_currency = "''eur''" and raw = "''{}''"
        and d = "[(''rates'', PDict [(''USD'', PInt 1), (''EUR'', PInt 0)])]"
        and rates = "[(''USD'', PInt 1), (''EUR'', PInt 0)]" and amount = 10000
        and ?t0.0 = "[]"] u j
    by (simp add: up)
  then show ?thesis unfolding W_def .
qed

section \<open>Ticker and stock price\<close>

text \<open>
  What \<open>get_ticker\<close> returns, in every world: the value is pinned to the response of
  the finance search. Both results of this section rest on it.
\<close>

lemma get_ticker_value:
  "\<exists>v. get_ticker W P company t0
          = (t0 @ [RequestsGet (''https://query2.finance.yahoo.com/v1/finance/search?q='' @ company)
                     (Some 10)], Inr v)
     \<and> (v = PNone
         \<or> (\<exists>r d q rest.
               requests_get W (''https://query2.finance.yahoo.com/v1/finance/search?q='' @ company)
                 [(''User-Agent'', ''Mozilla/5.0'')] (Some 10) = Inr r
               \<and> raise_for_status r = Inr () \<and> json_loads W (resp_text r) = Inr (PDict d)
               \<and> map_of d ''quotes'' = Some (PList (PDict q # rest))
               \<and> map_of q ''symbol'' = Some v))
     \<and> ((\<exists>e. requests_get W (''https://query2.finance.yahoo.com/v1/finance/search?q='' @ company)
                 [(''User-Agent'', ''Mozilla/5.0'')] (Some 10) = Inl e) \<longrightarrow> v = PNone)
     \<and> (\<forall>r. requests_get W (''https://query2.finance.yahoo.com/v1/finance/search?q='' @ company)
                 [(''User-Agent'', ''Mozilla/5.0'')] (Some 10) = Inr r \<longrightarrow>
           ((\<exists>e. raise_for_status r = Inl e) \<longrightarrow> v = PNone)
           \<and> ((\<exists>e. json_loads W (resp_text r) = Inl e) \<longrightarrow> v = PNone)
           \<and> (\<forall>d. raise_for_status r = Inr () \<and> json_loads W (resp_text r) = Inr (PDict d) \<longrightarrow>
                 (map_of d ''quotes'' = None \<longrightarrow> v = PNone)
                 \<and> (map_of d ''quotes'' = Some (PList []) \<longrightarrow> v = PNone)
                 \<and> (\<forall>q rest. map_of d ''quotes'' = Some (PList (PDict q # rest)) \<longrightarrow>
                       v = (case map_of q ''symbol'' of None \<Rightarrow> PNone | Some s \<Rightarrow> s))))"
proof (cases "requests_get W (''https://query2.finance.yahoo.com/v1/finance/search?q='' @ company)
                 [(''User-Agent'', ''Mozilla/5.0'')] (Some 10)")
  case (Inl e)
  then show ?thesis by (simp add: get_ticker_def exec_defs Let_def)
next
  case (Inr r)
  note req = Inr
  show ?thesis
  proof (cases "raise_for_status r")
    case (Inl e)
    with req show ?thesis by (simp add: get_ticker_def exec_defs Let_def)
  next
    case (Inr u)
    note ok = Inr
    show ?thesis
    proof (cases "json_loads W (resp_text r)")
      case (Inl e)
      with req ok show ?thesis by (simp add: get_ticker_def exec_defs Let_def)
    next
      case (Inr data)
      note parsed = Inr
      show ?thesis
      proof (cases data)
        case (PDict d)
        show ?thesis
        proof (cases "map_of d ''quotes''")
          case None
          with req ok parsed PDict show ?thesis
            by (simp add: get_ticker_def exec_defs Let_def)
        next
          case (Some quotes)
          show ?thesis
          proof (cases "py_truthy P quotes")
            case False
            with req ok parsed PDict Some show ?thesis
              by (auto simp: get_ticker_def exec_defs Let_def)
          next
            case True
            show ?thesis
            proof (cases "py_index0 quotes")
              case (Inl e)
              with req ok parsed PDict Some True show ?thesis
                by (cases quotes) (auto simp: get_ticker_def exec_defs Let_def split: list.splits)
            next
              case (Inr first)
              with req ok parsed PDict Some True show ?thesis
                by (cases quotes; cases first)
                  (auto simp: get_ticker_def exec_defs Let_def split: list.splits option.splits)
            qed
          qed
        qed
      qed (use req ok parsed in \<open>simp_all add: get_ticker_def exec_defs Let_def\<close>)
    qed
  qed
qed

text \<open>
  Claim C10. \<open>get_ticker\<close> never raises: it issues its one request, with a deadline
  of 10 seconds, and returns a value. The value is \<^verbatim>\<open>None\<close> or the \<^verbatim>\<open>symbol\<close>
  field of the first element of the \<^verbatim>\<open>quotes\<close> list of the response; it is
  \<^verbatim>\<open>None\<close> when the request raises, when the status check or the decoding raises, when
  the quotes list is absent or empty, and when the first quote has no \<^verbatim>\<open>symbol\<close>.
\<close>

theorem get_ticker_never_raises:
  "\<exists>v. get_ticker W P company t0
          = (t0 @ [RequestsGet (''https://query2.finance.yahoo.com/v1/finance/search?q='' @ company)
                     (Some 10)], Inr v)
     \<and> (v = PNone
         \<or> (\<exists>r d q rest.
               requests_get W (''https://query2.finance.yahoo.com/v1/finance/search?q='' @ company)
                 [(''User-Agent'', ''Mozilla/5.0'')] (Some 10) = Inr r
               \<and> raise_for_status r = Inr () \<and> json_loads W (resp_text r) = Inr (PDict d)
               \<and> map_of d ''quotes'' = Some (PList (PDict q # rest))
               \<and> map_of q ''symbol'' = Some v))
     \<and> ((\<exists>e. requests_get W (''https://query2.finance.yahoo.com/v1/finance/search?q='' @ company)
                 [(''User-Agent'', ''Mozilla/5.0'')] (Some 10) = Inl e) \<longrightarrow> v = PNone)
     \<and> (\<forall>r. requests_get W (''https://query2.finance.yahoo.com/v1/finance/search?q='' @ company)
                 [(''User-Agent'', ''Mozilla/5.0'')] (Some 10) = Inr r \<longrightarrow>
           ((\<exists>e. raise_for_status r = Inl e) \<longrightarrow> v = PNone)
           \<and> ((\<exists>e. json_loads W (resp_text r) = Inl e) \<longrightarrow> v = PNone)
           \<and> (\<forall>d. raise_for_status r = Inr () \<and> json_loads W (resp_text r) = Inr (PDict d) \<longrightarrow>
                 (map_of d ''quotes'' = None \<longrightarrow> v = PNone)
                 \<and> (map_of d ''quotes'' = Some (PList []) \<longrightarrow> v = PNone)
                 \<and> (\<forall>q rest. map_of d ''quotes'' = Some (PList (PDict q # rest)) \<longrightarrow>
                       v = (case map_of q ''symbol'' of None \<Rightarrow> PNone | Some s \<Rightarrow> s))))"
  by (rule get_ticker_value)

text \<open>
  A response whose first quote has the symbol AAPL.
\<close>

theorem get_ticker_never_raises_witness:
  "\<exists>v. get_ticker
          (stub_world (Inr []) (Inr (PDict [(''quotes'', PList [PDict [(''symbol'', PStr ''AAPL'')]])]))
             (Inr \<lparr>status_code = 200, reason = ''OK'', resp_url = [], resp_text = ''{}''\<rparr>) (Inr []))
          fixed_prims ''Apple'' []
          = ([RequestsGet ''https://query2.finance.yahoo.com/v1/finance/search?q=Apple'' (Some 10)],
             Inr v)
        \<and> v = PStr ''AAPL''"
proof -
  define W where
    "W = stub_world (Inr []) (Inr (PDict [(''quotes'', PList [PDict [(''symbol'', PStr ''AAPL'')]])]))
             (Inr \<lparr>status_code = 200, reason = ''OK'', resp_url = [], resp_text = ''{}''\<rparr>) (Inr [])"
  have rg: "requests_get W u h d
      = Inr \<lparr>status_code = 200, reason = ''OK'', resp_url = [], resp_text = ''{}''\<rparr>" for u h d
    by (simp add: W_def stub_world_def)
  have j: "json_loads W b = Inr (PDict [(''quotes'', PList [PDict [(''symbol'', PStr ''AAPL'')]])])" for b
    by (simp add: W_def stub_world_def)
  have ok: "raise_for_status \<lparr>status_code = 200, reason = ''OK'', resp_url = [], resp_text = ''{}''\<rparr>
      = Inr ()"
    by (simp add: raise_for_status_def)
  have "\<exists>v. get_ticker W fixed_prims ''Apple'' []
          = ([RequestsGet ''https://query2.finance.yahoo.com/v1/finance/search?q=Apple'' (Some 10)],
             Inr v)
        \<and> v = PStr ''AAPL''"
    using get_ticker_never_raises [of W fixed_prims "''Apple''" "[]"]
    by (simp add: rg j ok)
  then show ?thesis unfolding W_def .
qed

lemma get_ticker_trace:
  "fst (get_ticker W P company t0)
     = t0 @ [RequestsGet (''https://query2.finance.yahoo.com/v1/finance/search?q='' @ company)
               (Some 10)]"
  by (auto simp: get_ticker_def exec_defs Let_def split: sum.splits prod.splits)

text \<open>
  The second phase of \<open>get_stock_price\<close>, for whatever value the first phase gave.
\<close>

lemma get_stock_price_after_ticker:
  assumes "get_ticker W P company t0 = (t1, Inr symbol)"
  shows "t1 = t0 @ [RequestsGet (''https://query2.finance.yahoo.com/v1/finance/search?q='' @ company)
                      (Some 10)]
    \<and> (\<not> py_truthy P symbol \<longrightarrow>
          get_stock_price W P company t0
            = (t1, Inr (PStr (''Could not find a ticker symbol for '' @ company @ ''.''))))
    \<and> (py_truthy P symbol \<longrightarrow>
          fst (get_stock_price W P company t0) = t1 @ [YfHistory symbol ''1d'']
          \<and> (\<forall>e. yf_history W symbol ''1d'' = Inl e \<longrightarrow>
                snd (get_stock_price W P company t0)
                  = Inr (PStr (''Error retrieving stock price for '' @ company @ '': '' @ exn_str e)))
          \<and> (\<forall>data. yf_history W symbol ''1d'' = Inr data \<longrightarrow>
                (frame_empty data \<longrightarrow>
                   snd (get_stock_price W P company t0)
                     = Inr (PStr (''Could not retrieve data for '' @ company @ ''.'')))
                \<and> (\<forall>close x. \<not> frame_empty data \<and> map_of data ''Close'' = Some close
                       \<and> close \<noteq> [] \<and> last close = PFloat x \<longrightarrow>
                     snd (get_stock_price W P company t0)
                       = Inr (PStr (''The current stock price of '' @ company @ '' (''
                                    @ py_str P symbol @ '') is $'' @ float_fmt2 P x)))
                \<and> (\<not> frame_empty data \<longrightarrow>
                     (\<exists>close price_2f. map_of data ''Close'' = Some close \<and> close \<noteq> []
                        \<and> py_format_2f P (last close) = Inr price_2f
                        \<and> snd (get_stock_price W P company t0)
                            = Inr (PStr (''The current stock price of '' @ company @ '' (''
                                         @ py_str P symbol @ '') is $'' @ price_2f)))
                     \<or> (\<exists>msg. snd (get_stock_price W P company t0)
                            = Inr (PStr (''Error retrieving stock price for '' @ company @ '': ''
                                         @ msg))))))"
proof (intro conjI impI allI)
  show "t1 = t0 @ [RequestsGet (''https://query2.finance.yahoo.com/v1/finance/search?q='' @ company)
                      (Some 10)]"
    using assms get_ticker_trace [of W P company t0] by simp
next
  assume "\<not> py_truthy P symbol"
  with assms show "get_stock_price W P company t0
            = (t1, Inr (PStr (''Could not find a ticker symbol for '' @ company @ ''.'')))"
    by (simp add: get_stock_price_def bind_def ret_def)
next
  assume "py_truthy P symbol"
  with assms show "fst (get_stock_price W P company t0) = t1 @ [YfHistory symbol ''1d'']"
    by (auto simp: get_stock_price_def exec_defs split: sum.splits prod.splits)
next
  fix e assume "py_truthy P symbol" "yf_history W symbol ''1d'' = Inl e"
  with assms show "snd (get_stock_price W P company t0)
                  = Inr (PStr (''Error retrieving stock price for '' @ company @ '': '' @ exn_str e))"
    by (simp add: get_stock_price_def exec_defs)
next
  fix data assume "py_truthy P symbol" "yf_history W symbol ''1d'' = Inr data" "frame_empty data"
  with assms show "snd (get_stock_price W P company t0)
                     = Inr (PStr (''Could not retrieve data for '' @ company @ ''.''))"
    by (simp add: get_stock_price_def exec_defs)
next
  fix data close x
  assume "py_truthy P symbol" "yf_history W symbol ''1d'' = Inr data"
    "\<not> frame_empty data \<and> map_of data ''Close'' = Some close \<and> close \<noteq> [] \<and> last close = PFloat x"
  with assms show "snd (get_stock_price W P company t0)
                       = Inr (PStr (''The current stock price of '' @ company @ '' (''
                                    @ py_str P symbol @ '') is $'' @ float_fmt2 P x))"
    by (simp add: get_stock_price_def exec_defs frame_column_def iloc_last_def)
next
  fix data assume "py_truthy P symbol" "yf_history W symbol ''1d'' = Inr data" "\<not> frame_empty data"
  with assms show "(\<exists>close price_2f. map_of data ''Close'' = Some close \<and> close \<noteq> []
                        \<and> py_format_2f P (last close) = Inr price_2f
                        \<and> snd (get_stock_price W P company t0)
                            = Inr (PStr (''The current stock price of '' @ company @ '' (''
                                         @ py_str P symbol @ '') is $'' @ price_2f)))
                     \<or> (\<exists>msg. snd (get_stock_price W P company t0)
                            = Inr (PStr (''Error retrieving stock price for '' @ company @ '': ''
                                         @ msg)))"
    by (auto simp: get_stock_price_def exec_defs frame_column_def iloc_last_def
        split: sum.splits option.splits)
qed

text \<open>
  Claim C7. \<open>get_stock_price\<close> works in two phases. It first resolves the ticker symbol
  with \<open>get_ticker\<close>, at the cost of the one search request: the symbol is
  \<^verbatim>\<open>None\<close> or the \<^verbatim>\<open>symbol\<close> field of the first quote the finance search
  returned, and it is that field (\<^verbatim>\<open>None\<close> if the quote has none) whenever the search
  answers with a quotes list whose first element is an object. If the symbol is falsy the
  tool returns \<^verbatim>\<open>Could not find a ticker symbol for {company}.\<close> and the trace holds
  the search request only, no price lookup. Otherwise it asks for one day of history of
  that symbol, and returns: the error string when the lookup raises; the could-not-retrieve
  string when the history is empty; the last closing price formatted to two decimals when
  the history has a \<^verbatim>\<open>Close\<close> column ending in a float; and for a non-empty history
  always either the price string or the error string.
\<close>

theorem get_stock_price_two_phases:
  "\<exists>symbol.
     get_ticker W P company t0
       = (t0 @ [RequestsGet (''https://query2.finance.yahoo.com/v1/finance/search?q='' @ company)
                  (Some 10)], Inr symbol)
     \<and> (symbol = PNone
         \<or> (\<exists>r d q rest.
               requests_get W (''https://query2.finance.yahoo.com/v1/finance/search?q='' @ company)
                 [(''User-Agent'', ''Mozilla/5.0'')] (Some 10) = Inr r
               \<and> raise_for_status r = Inr () \<and> json_loads W (resp_text r) = Inr (PDict d)
               \<and> map_of d ''quotes'' = Some (PList (PDict q # rest))
               \<and> map_of q ''symbol'' = Some symbol))
     \<and> (\<forall>r d q rest.
           requests_get W (''https://query2.finance.yahoo.com/v1/finance/search?q='' @ company)
             [(''User-Agent'', ''Mozilla/5.0'')] (Some 10) = Inr r
           \<and> raise_for_status r = Inr () \<and> json_loads W (resp_text r) = Inr (PDict d)
           \<and> map_of d ''quotes'' = Some (PList (PDict q # rest)) \<longrightarrow>
           symbol = (case map_of q ''symbol'' of None \<Rightarrow> PNone | Some s \<Rightarrow> s))
     \<and> (\<not> py_truthy P symbol \<longrightarrow>
          get_stock_price W P company t0
            = (t0 @ [RequestsGet (''https://query2.finance.yahoo.com/v1/finance/search?q='' @ company)
                       (Some 10)],
               Inr (PStr (''Could not find a ticker symbol for '' @ company @ ''.''))))
     \<and> (py_truthy P symbol \<longrightarrow>
          fst (get_stock_price W P company t0)
            = t0 @ [RequestsGet (''https://query2.finance.yahoo.com/v1/finance/search?q='' @ company)
                      (Some 10),
                    YfHistory symbol ''1d'']
          \<and> (\<forall>e. yf_history W symbol ''1d'' = Inl e \<longrightarrow>
                snd (get_stock_price W P company t0)
                  = Inr (PStr (''Error retrieving stock price for '' @ company @ '': '' @ exn_str e)))
          \<and> (\<forall>data. yf_history W symbol ''1d'' = Inr data \<longrightarrow>
                (frame_empty data \<longrightarrow>
                   snd (get_stock_price W P company t0)
                     = Inr (PStr (''Could not retrieve data for '' @ company @ ''.'')))
                \<and> (\<forall>close x. \<not> frame_empty data \<and> map_of data ''Close'' = Some close
                       \<and> close \<noteq> [] \<and> last close = PFloat x \<longrightarrow>
                     snd (get_stock_price W P company t0)
                       = Inr (PStr (''The current stock price of '' @ company @ '' (''
                                    @ py_str P symbol @ '') is $'' @ float_fmt2 P x)))
                \<and> (\<not> frame_empty data \<longrightarrow>
                     (\<exists>close price_2f. map_of data ''Close'' = Some close \<and> close \<noteq> []
                        \<and> py_format_2f P (last close) = Inr price_2f
                        \<and> snd (get_stock_price W P company t0)
                            = Inr (PStr (''The current stock price of '' @ company @ '' (''
                                         @ py_str P symbol @ '') is $'' @ price_2f)))
                     \<or> (\<exists>msg. snd (get_stock_price W P company t0)
                            = Inr (PStr (''Error retrieving stock price for '' @ company @ '': ''
                                         @ msg))))))"
proof -
  from get_ticker_value [of W P company t0] obtain symbol where
    gt: "get_ticker W P company t0
       = (t0 @ [RequestsGet (''https://query2.finance.yahoo.com/v1/finance/search?q='' @ company)
                  (Some 10)], Inr symbol)"
    and pin: "symbol = PNone
         \<or> (\<exists>r d q rest.
               requests_get W (''https://query2.finance.yahoo.com/v1/finance/search?q='' @ company)
                 [(''User-Agent'', ''Mozilla/5.0'')] (Some 10) = Inr r
               \<and> raise_for_status r = Inr () \<and> json_loads W (resp_text r) = Inr (PDict d)
               \<and> map_of d ''quotes'' = Some (PList (PDict q # rest))
               \<and> map_of q ''symbol'' = Some symbol)"
    and rest: "\<forall>r. requests_get W (''https://query2.finance.yahoo.com/v1/finance/search?q='' @ company)
                 [(''User-Agent'', ''Mozilla/5.0'')] (Some 10) = Inr r \<longrightarrow>
           ((\<exists>e. raise_for_status r = Inl e) \<longrightarrow> symbol = PNone)
           \<and> ((\<exists>e. json_loads W (resp_text r) = Inl e) \<longrightarrow> symbol = PNone)
           \<and> (\<forall>d. raise_for_status r = Inr () \<and> json_loads W (resp_text r) = Inr (PDict d) \<longrightarrow>
                 (map_of d ''quotes'' = None \<longrightarrow> symbol = PNone)
                 \<and> (map_of d ''quotes'' = Some (PList []) \<longrightarrow> symbol = PNone)
                 \<and> (\<forall>q rest. map_of d ''quotes'' = Some (PList (PDict q # rest)) \<longrightarrow>
                       symbol = (case map_of q ''symbol'' of None \<Rightarrow> PNone | Some s \<Rightarrow> s)))"
    by (elim exE conjE) (rule that)
  have first: "\<forall>r d q rest.
           requests_get W (''https://query2.finance.yahoo.com/v1/finance/search?q='' @ company)
             [(''User-Agent'', ''Mozilla/5.0'')] (Some 10) = Inr r
           \<and> raise_for_status r = Inr () \<and> json_loads W (resp_text r) = Inr (PDict d)
           \<and> map_of d ''quotes'' = Some (PList (PDict q # rest)) \<longrightarrow>
           symbol = (case map_of q ''symbol'' of None \<Rightarrow> PNone | Some s \<Rightarrow> s)"
    using rest by blast
  note sp = get_stock_price_after_ticker [OF gt]
  from sp have none: "\<not> py_truthy P symbol \<longrightarrow>
          get_stock_price W P company t0
            = (t0 @ [RequestsGet (''https://query2.finance.yahoo.com/v1/finance/search?q='' @ company)
                       (Some 10)],
               Inr (PStr (''Could not find a ticker symbol for '' @ company @ ''.'')))"
    by (elim conjE)
  have ap: "(t0 @ [RequestsGet (''https://query2.finance.yahoo.com/v1/finance/search?q='' @ company)
                      (Some 10)]) @ [YfHistory symbol ''1d'']
      = t0 @ [RequestsGet (''https://query2.finance.yahoo.com/v1/finance/search?q='' @ company)
                (Some 10),
              YfHistory symbol ''1d'']"
    by simp
  have some: "py_truthy P symbol \<longrightarrow>
          fst (get_stock_price W P company t0)
            = t0 @ [RequestsGet (''https://query2.finance.yahoo.com/v1/finance/search?q='' @ company)
                      (Some 10),
                    YfHistory symbol ''1d'']
          \<and> (\<forall>e. yf_history W symbol ''1d'' = Inl e \<longrightarrow>
                snd (get_stock_price W P company t0)
                  = Inr (PStr (''Error retrieving stock price for '' @ company @ '': '' @ exn_str e)))
          \<and> (\<forall>data. yf_history W symbol ''1d'' = Inr data \<longrightarrow>
                (frame_empty data \<longrightarrow>
                   snd (get_stock_price W P company t0)
                     = Inr (PStr (''Could not retrieve data for '' @ company @ ''.'')))
                \<and> (\<forall>close x. \<not> frame_empty data \<and> map_of data ''Close'' = Some close
                       \<and> close \<noteq> [] \<and> last close = PFloat x \<longrightarrow>
                     snd (get_stock_price W P company t0)
                       = Inr (PStr (''The current stock price of '' @ company @ '' (''
                                    @ py_str P symbol @ '') is $'' @ float_fmt2 P x)))
                \<and> (\<not> frame_empty data \<longrightarrow>
                     (\<exists>close price_2f. map_of data ''Close'' = Some close \<and> close \<noteq> []
                        \<and> py_format_2f P (last close) = Inr price_2f
                        \<and> snd (get_stock_price W P company t0)
                            = Inr (PStr (''The current stock price of '' @ company @ '' (''
                                         @ py_str P symbol @ '') is $'' @ price_2f)))
                     \<or> (\<exists>msg. snd (get_stock_price W P company t0)
                            = Inr (PStr (''Error retrieving stock price for '' @ company @ '': ''
                                         @ msg)))))"
    using sp [THEN conjunct2, THEN conjunct2] unfolding ap .
  from gt pin first none some show ?thesis
    by (intro exI [of _ symbol] conjI)
qed

text \<open>
  The search finds AAPL and the history closes at 190.12.
\<close>

theorem get_stock_price_two_phases_witness:
  "get_stock_price
     (stub_world (Inr []) (Inr (PDict [(''quotes'', PList [PDict [(''symbol'', PStr ''AAPL'')]])]))
        (Inr \<lparr>status_code = 200, reason = ''OK'', resp_url = [], resp_text = ''{}''\<rparr>)
        (Inr [(''Open'', [PFloat 18950]), (''Close'', [PFloat 19012])]))
     fixed_prims ''Apple'' []
   = ([RequestsGet ''https://query2.finance.yahoo.com/v1/finance/search?q=Apple'' (Some 10),
       YfHistory (PStr ''AAPL'') ''1d''],
      Inr (PStr ''The current stock price of Apple (AAPL) is $190.12''))"
proof -
  define W where
    "W = stub_world (Inr []) (Inr (PDict [(''quotes'', PList [PDict [(''symbol'', PStr ''AAPL'')]])]))
        (Inr \<lparr>status_code = 200, reason = ''OK'', resp_url = [], resp_text = ''{}''\<rparr>)
        (Inr [(''Open'', [PFloat 18950]), (''Close'', [PFloat 19012])])"
  have rg: "requests_get W u h d
      = Inr \<lparr>status_code = 200, reason = ''OK'', resp_url = [], resp_text = ''{}''\<rparr>" for u h d
    by (simp add: W_def stub_world_def)
  have j: "json_loads W b = Inr (PDict [(''quotes'', PList [PDict [(''symbol'', PStr ''AAPL'')]])])" for b
    by (simp add: W_def stub_world_def)
  have ok: "raise_for_status \<lparr>status_code = 200, reason = ''OK'', resp_url = [], resp_text = ''{}''\<rparr>
      = Inr ()"
    by (simp add: raise_for_status_def)
  have h: "yf_history W s p = Inr [(''Open'', [PFloat 18950]), (''Close'', [PFloat 19012])]" for s p
    by (simp add: W_def stub_world_def)
  have f: "float_fmt2 fixed_prims 19012 = ''190.12''"
    by (simp add: fixed_prims_def fixed2_def digits_of_nat.simps char_of_def bit_Suc_0_iff)
  have "get_stock_price W fixed_prims ''Apple'' []
   = ([RequestsGet ''https://query2.finance.yahoo.com/v1/finance/search?q=Apple'' (Some 10),
       YfHistory (PStr ''AAPL'') ''1d''],
      Inr (PStr ''The current stock price of Apple (AAPL) is $190.12''))"
    using get_stock_price_two_phases [of W fixed_prims "''Apple''" "[]"] f
    by (auto simp: rg j ok h frame_empty_def py_str_def prod_eq_iff)
  then show ?thesis unfolding W_def .
qed

section \<open>Duplicate registration\<close>

lemma find_append_fresh:
  "\<forall>x \<in> set xs. \<not> Q x \<Longrightarrow> find Q (xs @ ys) = find Q ys"
  by (induction xs) auto

text \<open>
  Claim C4. Registering a second tool under the name of a tool already registered fails
  with DuplicateToolError, a configuration error; the registry after the failed registration
  is the registry before it, and looking the name up still gives the first descriptor.
\<close>

theorem duplicate_registration_rejected:
  assumes "register d1 reg = (reg1, Inr ())" and "name d2 = name d1"
  shows "register d2 reg1 = (reg1, Inl (DuplicateToolError (name d1)))
    \<and> registry_get (name d1) reg1 = Inr d1
    \<and> (reg = [] \<longrightarrow> reg1 = [d1])"
proof -
  from assms(1) have nin: "name d1 \<notin> name ` set reg" and reg1: "reg1 = reg @ [d1]"
    by (auto simp: register_def split: if_splits)
  have fresh: "\<forall>x \<in> set reg. \<not> name x = name d1"
  proof
    fix x assume "x \<in> set reg"
    then have "name x \<in> name ` set reg" by (rule imageI)
    with nin show "\<not> name x = name d1" by auto
  qed
  then have "find (\<lambda>d. name d = name d1) (reg @ [d1]) = Some d1"
    by (simp add: find_append_fresh)
  with reg1 assms(2) show ?thesis
    by (simp add: register_def registry_get_def)
qed

text \<open>
  Two descriptors named \<^verbatim>\<open>get_weather\<close>, registered into an empty registry.
\<close>

theorem duplicate_registration_rejected_witness:
  "register \<lparr>name = ''get_weather'', description = ''other'', parameters = [], invoke = ()\<rparr>
      [\<lparr>name = ''get_weather'', description = ''weather'',
         parameters = [(''city'', TString, False)], invoke = ()\<rparr>]
    = ([\<lparr>name = ''get_weather'', description = ''weather'',
          parameters = [(''city'', TString, False)], invoke = ()\<rparr>],
       Inl (DuplicateToolError ''get_weather''))
   \<and> registry_get ''get_weather''
        [\<lparr>name = ''get_weather'', description = ''weather'',
           parameters = [(''city'', TString, False)], invoke = ()\<rparr>]
      = Inr \<lparr>name = ''get_weather'', description = ''weather'',
              parameters = [(''city'', TString, False)], invoke = ()\<rparr>"
  using duplicate_registration_rejected [of
      "\<lparr>name = ''get_weather'', description = ''weather'',
         parameters = [(''city'', TString, False)], invoke = ()\<rparr>" "[]"
      "[\<lparr>name = ''get_weather'', description = ''weather'',
         parameters = [(''city'', TString, False)], invoke = ()\<rparr>]"
      "\<lparr>name = ''get_weather'', description = ''other'', parameters = [], invoke = ()\<rparr>"]
  by (simp add: register_def)

end
